theory Spec2Isabelle
  imports Complex_Main "HOL-Library.Word"
begin

section \<open>Python strings and values\<close>

text \<open>
  A Python \<open>str\<close> is modelled as a \<open>string\<close>: one \<open>char\<close> per code point, which
  covers the code points below 256 (Latin-1).  On that range \<open>\d\<close> matches the ASCII
  digits only and \<open>encode('latin-1')\<close> never fails.
\<close>

datatype py_error = ZeroDivisionError | TypeError | NameError | AttributeError

definition code_point :: "char \<Rightarrow> nat" where
  "code_point c = of_char c"

text \<open>\<open>str.lower()\<close> on Latin-1: A-Z and the accented capitals 0xC0-0xDE (not 0xD7).\<close>

definition lower_char :: "char \<Rightarrow> char" where
  "lower_char c =
     (let n = code_point c
      in if (65 \<le> n \<and> n \<le> 90) \<or> (192 \<le> n \<and> n \<le> 222 \<and> n \<noteq> 215)
         then char_of (n + 32) else c)"

definition lower :: "string \<Rightarrow> string" where
  "lower s = map lower_char s"

text \<open>\<open>str.isspace()\<close> on Latin-1, the characters \<open>str.strip()\<close> removes.\<close>

definition is_space :: "char \<Rightarrow> bool" where
  "is_space c =
     (let n = code_point c
      in (9 \<le> n \<and> n \<le> 13) \<or> (28 \<le> n \<and> n \<le> 32) \<or> n = 133 \<or> n = 160)"

definition strip :: "string \<Rightarrow> string" where
  "strip s = rev (dropWhile is_space (rev (dropWhile is_space s)))"

text \<open>\<open>s.replace("\x00", "")\<close>\<close>

definition remove_nul :: "string \<Rightarrow> string" where
  "remove_nul s = filter (\<lambda>c. code_point c \<noteq> 0) s"

text \<open>\<open>sub in s\<close> for strings: \<open>sub\<close> occurs as a contiguous run of \<open>s\<close>.\<close>

fun starts_with :: "string \<Rightarrow> string \<Rightarrow> bool" where
  "starts_with [] s = True"
| "starts_with (p # ps) [] = False"
| "starts_with (p # ps) (c # cs) = (p = c \<and> starts_with ps cs)"

fun str_in :: "string \<Rightarrow> string \<Rightarrow> bool" where
  "str_in sub [] = (sub = [])"
| "str_in sub (c # cs) = (starts_with sub (c # cs) \<or> str_in sub cs)"

definition endswith :: "string \<Rightarrow> string \<Rightarrow> bool" where
  "endswith s suf = starts_with (rev suf) (rev s)"

section \<open>Utility functions of the SNMP engine\<close>

subsection \<open>calc_bps\<close>

text \<open>
  An argument of \<open>calc_bps\<close> is a number or a value on which the arithmetic of the
  body raises (\<open>None\<close>, a string).  Numbers are exact rationals: Python's \<open>int\<close>s are
  among them; the rounding and the range of float division, infinities and NaN are not
  represented.
\<close>

datatype py_arg = Num rat | NonNumeric

fun calc_bps_body :: "py_arg \<Rightarrow> py_arg \<Rightarrow> py_arg \<Rightarrow> py_error + rat" where
  "calc_bps_body (Num old) (Num new) (Num interval) =
     (if interval = 0 then Inl ZeroDivisionError
      else Inr (max ((new - old) * 8 / interval) 0))"
| "calc_bps_body _ _ _ = Inl TypeError"

definition calc_bps :: "py_arg \<Rightarrow> py_arg \<Rightarrow> py_arg \<Rightarrow> rat" where
  "calc_bps old new interval =
     (case calc_bps_body old new interval of Inl e \<Rightarrow> 0 | Inr v \<Rightarrow> v)"

text \<open>\<open>int(x)\<close> on a number: truncation towards zero.\<close>

definition py_int :: "rat \<Rightarrow> int" where
  "py_int r = (if 0 \<le> r then \<lfloor>r\<rfloor> else \<lceil>r\<rceil>)"

text \<open>Line 350: \<open>speed_bps = int(calc_bps(0, in_oct, interval)) if in_oct else None\<close>\<close>

definition speed_of :: "int \<Rightarrow> int \<Rightarrow> int option" where
  "speed_of in_oct interval =
     (if in_oct \<noteq> 0
      then Some (py_int (calc_bps (Num 0) (Num (of_int in_oct)) (Num (of_int interval))))
      else None)"

subsection \<open>format_mac_address\<close>

text \<open>
  The argument is \<open>None\<close>, a \<open>str\<close>, a byte sequence (\<open>bytes\<close>, or the octet string
  of the SNMP library), or a value without a length such as an \<open>int\<close>: zero is
  false at line 74, and on any other \<open>int\<close> the \<open>len\<close> of line 100 raises TypeError
  inside the \<open>try\<close>, which returns \<open>None\<close>.
\<close>

datatype mac_value = MacNone | MacStr string | MacBytes "8 word list" | MacInt int

definition hex_digit :: "nat \<Rightarrow> char" where
  "hex_digit n = ''0123456789abcdef'' ! n"

text \<open>\<open>f"{byte:02x}"\<close>\<close>

definition hex2 :: "8 word \<Rightarrow> string" where
  "hex2 b = [hex_digit (unat b div 16), hex_digit (unat b mod 16)]"

fun join :: "string \<Rightarrow> string list \<Rightarrow> string" where
  "join sep [] = []"
| "join sep [x] = x"
| "join sep (x # y # ys) = x @ sep @ join sep (y # ys)"

definition encode_latin1 :: "string \<Rightarrow> 8 word list" where
  "encode_latin1 s = map (\<lambda>c. of_nat (code_point c)) s"

text \<open>Lines 100-104: the first six bytes, or \<open>None\<close> when there are fewer.\<close>

definition mac_of_bytes :: "8 word list \<Rightarrow> string option" where
  "mac_of_bytes mac_bytes =
     (if 6 \<le> length mac_bytes then Some (join '':'' (map hex2 (take 6 mac_bytes)))
      else None)"

fun format_mac_address :: "mac_value \<Rightarrow> string option" where
  "format_mac_address MacNone = None"
| "format_mac_address (MacStr s) =
     (if s = [] then None
      else let s' = strip (remove_nul s)
           in if s' = [] then None
              else if CHR '':'' \<in> set s' then Some s'
              else mac_of_bytes (encode_latin1 s'))"
| "format_mac_address (MacBytes bs) = (if bs = [] then None else mac_of_bytes bs)"
| "format_mac_address (MacInt i) = None"

section \<open>Data model (models.py)\<close>

text \<open>
  One record per table, with the columns the polling core and the backfill matcher read
  or write.  A nullable column is an \<open>option\<close>; a table is the list of its rows in the
  order a \<open>select\<close> returns them, so \<open>.first()\<close> is the first matching row.
\<close>

type_synonym timestamp = nat

record device =
  d_id :: nat
  d_hostname :: "string option"
  d_ip_address :: string
  d_status :: "string option"
  d_last_seen :: "timestamp option"
  d_lldp_hostname :: "string option"

record interface =
  i_id :: nat
  i_device_id :: "nat option"
  i_interface_name :: "string option"
  i_mac_address :: "string option"
  i_status :: "string option"
  i_speed_bps :: "int option"

record interface_stats =
  s_id :: nat
  s_interface_id :: nat
  s_timestamp :: timestamp
  s_in_bps :: int
  s_out_bps :: int

record discovered_device =
  dd_id :: nat
  dd_lldp_hostname :: string
  dd_ip_address :: "string option"
  dd_first_seen :: timestamp
  dd_last_seen :: timestamp

record topology_link =
  l_id :: nat
  l_src_device_id :: nat
  l_src_interface :: string
  l_dst_device_id :: "nat option"
  l_dst_discovered_device_id :: "nat option"
  l_dst_hostname :: "string option"
  l_dst_interface :: string
  l_last_seen :: timestamp

record db =
  devices :: "device list"
  interfaces :: "interface list"
  stats :: "interface_stats list"
  discovered_devices :: "discovered_device list"
  topology_links :: "topology_link list"

text \<open>\<open>session.get(Device, pk)\<close>: the row with that primary key, \<open>None\<close> for a null key.\<close>

definition get_device :: "device list \<Rightarrow> nat option \<Rightarrow> device option" where
  "get_device ds pk = (case pk of None \<Rightarrow> None | Some k \<Rightarrow> find (\<lambda>d. d_id d = k) ds)"

section \<open>Topology backfill matcher (routers/topology.py)\<close>

definition is_digit :: "char \<Rightarrow> bool" where
  "is_digit c = (48 \<le> code_point c \<and> code_point c \<le> 57)"

definition is_hex :: "char \<Rightarrow> bool" where
  "is_hex c =
     (let n = code_point c
      in (48 \<le> n \<and> n \<le> 57) \<or> (65 \<le> n \<and> n \<le> 70) \<or> (97 \<le> n \<and> n \<le> 102))"

fun first_some :: "'a option list \<Rightarrow> 'a option" where
  "first_some [] = None"
| "first_some (None # xs) = first_some xs"
| "first_some (Some x # xs) = Some x"

text \<open>
  The ways \<open>\d{1,3}\<close> can match at the start of a string, longest first (the
  quantifier is greedy): each with the text matched and the rest.
\<close>

definition octet_choices :: "string \<Rightarrow> (string \<times> string) list" where
  "octet_choices s =
     map (\<lambda>k. (take k s, drop k s))
       (filter (\<lambda>k. k \<le> length s \<and> list_all is_digit (take k s)) [3, 2, 1])"

text \<open>\<open>(?:\.\d{1,3}){n}\<close> at the start of a string: the text of the first match found
  by backtracking.\<close>

primrec ip_tail :: "nat \<Rightarrow> string \<Rightarrow> string option" where
  "ip_tail 0 s = Some []"
| "ip_tail (Suc n) s =
     (case s of
        [] \<Rightarrow> None
      | c # r \<Rightarrow>
          if c = CHR ''.''
          then first_some
                 (map (\<lambda>(oct, rest). map_option (\<lambda>t. c # oct @ t) (ip_tail n rest))
                    (octet_choices r))
          else None)"

definition ip_at :: "string \<Rightarrow> string option" where
  "ip_at s =
     first_some (map (\<lambda>(oct, rest). map_option (\<lambda>t. oct @ t) (ip_tail 3 rest)) (octet_choices s))"

text \<open>\<open>re.search(r"(\d{1,3}(?:\.\d{1,3}){3})", s)\<close>: the leftmost match.\<close>

fun ip_search :: "string \<Rightarrow> string option" where
  "ip_search [] = None"
| "ip_search (c # cs) = (case ip_at (c # cs) of Some m \<Rightarrow> Some m | None \<Rightarrow> ip_search cs)"

text \<open>\<open>re.search(r"([0-9A-Fa-f]{12})", s)\<close>: the leftmost run of twelve hex digits.\<close>

fun hex12_search :: "string \<Rightarrow> string option" where
  "hex12_search [] = None"
| "hex12_search (c # cs) =
     (if 12 \<le> length (c # cs) \<and> list_all is_hex (take 12 (c # cs)) then Some (take 12 (c # cs))
      else hex12_search cs)"

definition normalize_mac :: "string option \<Rightarrow> string" where
  "normalize_mac s =
     (case s of None \<Rightarrow> [] | Some m \<Rightarrow> if m = [] then [] else lower (filter is_hex m))"

text \<open>Line 256: the label carries a marker of a non-device string.\<close>

definition non_device :: "string \<Rightarrow> bool" where
  "non_device dst_name =
     (dst_name \<noteq> [] \<and>
      (str_in ''adapter'' (lower dst_name) \<or> str_in ''fw_version'' (lower dst_name)
       \<or> str_in ''firmware'' (lower dst_name)))"

text \<open>\<open>d.hostname and d.hostname.lower() == x.lower()\<close>\<close>

definition hostname_is :: "string \<Rightarrow> device \<Rightarrow> bool" where
  "hostname_is x d =
     (case d_hostname d of None \<Rightarrow> False | Some h \<Rightarrow> h \<noteq> [] \<and> lower h = lower x)"

text \<open>Strategy 1, lines 260-265.\<close>

definition match_exact :: "string \<Rightarrow> device list \<Rightarrow> (device \<times> string) option" where
  "match_exact dst_name all_devices =
     (if dst_name \<noteq> []
      then map_option (\<lambda>d. (d, ''exact'')) (find (hostname_is dst_name) all_devices)
      else None)"

text \<open>Strategy 2, lines 268-274; \<open>split(".", 1)[0]\<close> is the text before the first dot.\<close>

definition match_short :: "string \<Rightarrow> device list \<Rightarrow> (device \<times> string) option" where
  "match_short dst_name all_devices =
     (if dst_name \<noteq> [] \<and> CHR ''.'' \<in> set dst_name
      then let short = takeWhile (\<lambda>c. c \<noteq> CHR ''.'') dst_name
           in map_option (\<lambda>d. (d, ''short'')) (find (hostname_is short) all_devices)
      else None)"

text \<open>
  Strategy 3, lines 277-286.  The second test calls \<open>d.hostname.lower()\<close> without a
  guard, which raises AttributeError on a device whose hostname is null.
\<close>

fun contains_loop :: "string \<Rightarrow> device list \<Rightarrow> py_error + (device \<times> string) option" where
  "contains_loop dst_name [] = Inr None"
| "contains_loop dst_name (d # ds) =
     (case d_hostname d of
        None \<Rightarrow> Inl AttributeError
      | Some h \<Rightarrow>
          if h \<noteq> [] \<and> str_in (lower h) (lower dst_name) then Inr (Some (d, ''contains_dst''))
          else if str_in (lower dst_name) (lower h) then Inr (Some (d, ''contains_dev''))
          else contains_loop dst_name ds)"

definition match_contains :: "string \<Rightarrow> device list \<Rightarrow> py_error + (device \<times> string) option" where
  "match_contains dst_name all_devices =
     (if dst_name \<noteq> [] then contains_loop dst_name all_devices else Inr None)"

text \<open>Strategy 4, lines 289-297.\<close>

definition match_ip :: "string \<Rightarrow> device list \<Rightarrow> (device \<times> string) option" where
  "match_ip dst_name all_devices =
     (if dst_name \<noteq> []
      then case ip_search dst_name of
             None \<Rightarrow> None
           | Some ip \<Rightarrow>
               map_option (\<lambda>d. (d, ''ip:'' @ ip))
                 (find (\<lambda>d. d_ip_address d \<noteq> [] \<and> d_ip_address d = ip) all_devices)
      else None)"

text \<open>
  Strategy 5, lines 301-313: the first interface whose normalised MAC ends with the hex
  run ends the loop; the candidate is that interface's device, if the row exists.
\<close>

definition match_mac ::
  "string \<Rightarrow> device list \<Rightarrow> interface list \<Rightarrow> (device \<times> string) option" where
  "match_mac dst_name all_devices all_ifaces =
     (if dst_name \<noteq> []
      then case hex12_search dst_name of
             None \<Rightarrow> None
           | Some m \<Rightarrow>
               let hexstr = lower m
               in (case find (\<lambda>iface. endswith (normalize_mac (i_mac_address iface)) hexstr
                                   \<or> normalize_mac (i_mac_address iface) = hexstr) all_ifaces of
                     None \<Rightarrow> None
                   | Some iface \<Rightarrow>
                       map_option (\<lambda>d. (d, ''mac:'' @ hexstr))
                         (get_device all_devices (i_device_id iface)))
      else None)"

text \<open>
  Lines 252-313 for one label: \<open>candidate\<close> starts as \<open>None\<close> and each strategy runs
  under \<open>if not candidate\<close>.
\<close>

definition match_link ::
  "string \<Rightarrow> device list \<Rightarrow> interface list \<Rightarrow> py_error + (device \<times> string) option" where
  "match_link dst_name all_devices all_ifaces =
     (let candidate = match_exact dst_name all_devices;
          candidate = (if candidate = None then match_short dst_name all_devices else candidate)
      in case (if candidate = None then match_contains dst_name all_devices else Inr candidate) of
           Inl e \<Rightarrow> Inl e
         | Inr candidate \<Rightarrow>
             let candidate = (if candidate = None then match_ip dst_name all_devices else candidate);
                 candidate = (if candidate = None then match_mac dst_name all_devices all_ifaces
                              else candidate)
             in Inr candidate)"

text \<open>Lines 251-257 and the strategies: what one link resolves to.\<close>

definition resolve_link ::
  "device list \<Rightarrow> interface list \<Rightarrow> topology_link \<Rightarrow> py_error + (device \<times> string) option" where
  "resolve_link all_devices all_ifaces link =
     (let dst_name = strip (case l_dst_hostname link of None \<Rightarrow> [] | Some h \<Rightarrow> h)
      in if non_device dst_name then Inr None
         else match_link dst_name all_devices all_ifaces)"

record suggestion =
  sg_link_id :: nat
  sg_src_device_id :: nat
  sg_src_interface :: string
  sg_dst_hostname :: "string option"
  sg_matched_device_id :: nat
  sg_matched_device_hostname :: "string option"
  sg_reason :: string

record backfill_state =
  processed :: nat
  updated :: nat
  suggestions :: "suggestion list"
  visited :: "topology_link list"

text \<open>\<open>candidate.hostname or link.dst_hostname\<close>\<close>

definition hostname_or :: "string option \<Rightarrow> string option \<Rightarrow> string option" where
  "hostname_or h fallback = (case h of None \<Rightarrow> fallback | Some x \<Rightarrow> if x = [] then fallback else h)"

text \<open>
  The loop of lines 249-332.  \<open>visited\<close> collects the link rows in the state the loop
  leaves them in; an uncaught error ends the request.
\<close>

fun backfill_loop ::
  "bool \<Rightarrow> device list \<Rightarrow> interface list \<Rightarrow> topology_link list \<Rightarrow> backfill_state
     \<Rightarrow> py_error + backfill_state" where
  "backfill_loop dry_run all_devices all_ifaces [] st = Inr st"
| "backfill_loop dry_run all_devices all_ifaces (link # links) st =
     (let st = st\<lparr>processed := processed st + 1\<rparr>
      in case resolve_link all_devices all_ifaces link of
           Inl e \<Rightarrow> Inl e
         | Inr None \<Rightarrow>
             backfill_loop dry_run all_devices all_ifaces links (st\<lparr>visited := visited st @ [link]\<rparr>)
         | Inr (Some (candidate, reason)) \<Rightarrow>
             let sg = \<lparr>sg_link_id = l_id link, sg_src_device_id = l_src_device_id link,
                       sg_src_interface = l_src_interface link, sg_dst_hostname = l_dst_hostname link,
                       sg_matched_device_id = d_id candidate,
                       sg_matched_device_hostname = d_hostname candidate, sg_reason = reason\<rparr>;
                 st = st\<lparr>suggestions := suggestions st @ [sg]\<rparr>
             in if \<not> dry_run
                then backfill_loop dry_run all_devices all_ifaces links
                       (st\<lparr>updated := updated st + 1,
                           visited := visited st @
                             [link\<lparr>l_dst_device_id := Some (d_id candidate),
                                    l_dst_hostname := hostname_or (d_hostname candidate)
                                                        (l_dst_hostname link)\<rparr>]\<rparr>)
                else backfill_loop dry_run all_devices all_ifaces links
                       (st\<lparr>visited := visited st @ [link]\<rparr>))"




section \<open>Polling one device (utils/snmp_engine.py)\<close>

subsection \<open>Walk results and LLDP neighbours\<close>

text \<open>
  \<open>snmp_walk\<close> returns \<open>None\<close> on failure and otherwise a dict from full OID to value,
  here the list of its items in insertion order; \<open>.get\<close> is \<open>map_of\<close>.  The values of
  the text tables are given as \<open>str(value)\<close>, those of the status and counter tables
  as the integers of their MIB types, the physical addresses as octets.
\<close>

type_synonym 'v walk = "(string \<times> 'v) list option"

record snmp_replies =
  r_if_descr :: "string walk"
  r_if_oper :: "int walk"
  r_if_in :: "int walk"
  r_if_out :: "int walk"
  r_if_mac :: "8 word list walk"
  r_lldp_sysnames :: "string walk"
  r_lldp_portdesc :: "string walk"
  r_lldp_manaddr :: "string walk"

definition IF_OPER_STATUS_OID :: string where "IF_OPER_STATUS_OID = ''1.3.6.1.2.1.2.2.1.8''"
definition IF_IN_OCTETS_OID :: string where "IF_IN_OCTETS_OID = ''1.3.6.1.2.1.2.2.1.10''"
definition IF_OUT_OCTETS_OID :: string where "IF_OUT_OCTETS_OID = ''1.3.6.1.2.1.2.2.1.16''"
definition IF_MAC_OID :: string where "IF_MAC_OID = ''1.3.6.1.2.1.2.2.1.6''"
definition LLDP_REM_PORT_DESC :: string where "LLDP_REM_PORT_DESC = ''1.0.8802.1.1.2.1.4.1.1.8''"
definition LLDP_REM_MAN_ADDR :: string where "LLDP_REM_MAN_ADDR = ''1.0.8802.1.1.2.1.4.2.1.4''"

text \<open>Truth value of a walk result: neither \<open>None\<close> nor an empty dict.\<close>

definition walk_ok :: "'v walk \<Rightarrow> bool" where
  "walk_ok w = (case w of None \<Rightarrow> False | Some kv \<Rightarrow> kv \<noteq> [])"

definition walk_items :: "'v walk \<Rightarrow> (string \<times> 'v) list" where
  "walk_items w = (case w of None \<Rightarrow> [] | Some kv \<Rightarrow> kv)"

text \<open>\<open>w.get(key) if w else None\<close>\<close>

definition walk_get :: "'v walk \<Rightarrow> string \<Rightarrow> 'v option" where
  "walk_get w key = (if walk_ok w then map_of (walk_items w) key else None)"

text \<open>\<open>oid_string.rsplit(".", 1)[-1]\<close>: the text after the last dot.\<close>

definition oid_index :: "string \<Rightarrow> string" where
  "oid_index oid_string = rev (takeWhile (\<lambda>c. c \<noteq> CHR ''.'') (rev oid_string))"

text \<open>\<open>str(v).replace("\x00", "").strip()\<close>\<close>

definition clean :: "string \<Rightarrow> string" where
  "clean v = strip (remove_nul v)"

record neighbor =
  nb_name :: string
  nb_ip :: string
  nb_iface :: string

text \<open>
  \<open>get_lldp_neighbors\<close>, lines 225-265.  The result dict is kept as a list with the
  latest assignment first, so that \<open>map_of\<close> reads what \<open>neighbors.get\<close> reads.
\<close>

definition lldp_entry :: "string walk \<Rightarrow> string walk \<Rightarrow> string \<times> string \<Rightarrow> string \<times> neighbor" where
  "lldp_entry portdesc manaddr item =
     (let index = oid_index (fst item);
          name = clean (snd item);
          ip = (if walk_ok manaddr
                then clean (case map_of (walk_items manaddr) (LLDP_REM_MAN_ADDR @ ''.'' @ index) of
                              None \<Rightarrow> [] | Some v \<Rightarrow> v)
                else []);
          iface = (if walk_ok portdesc
                   then clean (case map_of (walk_items portdesc) (LLDP_REM_PORT_DESC @ ''.'' @ index) of
                                 None \<Rightarrow> [] | Some v \<Rightarrow> v)
                   else [])
      in (index, \<lparr>nb_name = name, nb_ip = ip, nb_iface = iface\<rparr>))"

definition get_lldp_neighbors ::
  "string walk \<Rightarrow> string walk \<Rightarrow> string walk \<Rightarrow> (string \<times> neighbor) list" where
  "get_lldp_neighbors sysnames portdesc manaddr =
     (if \<not> walk_ok sysnames then []
      else fold (\<lambda>item neighbors. lldp_entry portdesc manaddr item # neighbors)
             (walk_items sysnames) [])"

subsection \<open>Session operations\<close>

text \<open>The identity a flush assigns to a new row: above every identity in the table.\<close>

definition next_id :: "nat list \<Rightarrow> nat" where
  "next_id ids = Suc (fold max ids 0)"

text \<open>A row fetched by primary key and mutated through its ORM object.\<close>

definition set_device :: "nat \<Rightarrow> (device \<Rightarrow> device) \<Rightarrow> db \<Rightarrow> db" where
  "set_device k f database =
     database\<lparr>devices := map (\<lambda>d. if d_id d = k then f d else d) (devices database)\<rparr>"

definition set_interface :: "nat \<Rightarrow> (interface \<Rightarrow> interface) \<Rightarrow> db \<Rightarrow> db" where
  "set_interface k f database =
     database\<lparr>interfaces := map (\<lambda>i. if i_id i = k then f i else i) (interfaces database)\<rparr>"

definition set_discovered :: "nat \<Rightarrow> (discovered_device \<Rightarrow> discovered_device) \<Rightarrow> db \<Rightarrow> db" where
  "set_discovered k f database =
     database\<lparr>discovered_devices :=
       map (\<lambda>x. if dd_id x = k then f x else x) (discovered_devices database)\<rparr>"

definition set_link :: "nat \<Rightarrow> (topology_link \<Rightarrow> topology_link) \<Rightarrow> db \<Rightarrow> db" where
  "set_link k f database =
     database\<lparr>topology_links := map (\<lambda>l. if l_id l = k then f l else l) (topology_links database)\<rparr>"

text \<open>\<open>x or None\<close> for a string.\<close>

definition or_none :: "string \<Rightarrow> string option" where
  "or_none x = (if x = [] then None else Some x)"

subsection \<open>One interface of the description walk\<close>

text \<open>\<open>int(a * 8 / interval)\<close>, lines 348-349; raises on a zero interval.\<close>

definition bps_of :: "int \<Rightarrow> int \<Rightarrow> py_error + int" where
  "bps_of octets interval =
     (if interval = 0 then Inl ZeroDivisionError
      else Inr (py_int (of_int (octets * 8) / of_int interval)))"

text \<open>The key of \<open>existing_ifaces\<close>, line 320: \<open>(i.interface_name or "").strip()\<close>\<close>

definition iface_key :: "interface \<Rightarrow> string" where
  "iface_key i = strip (case i_interface_name i of None \<Rightarrow> [] | Some n \<Rightarrow> n)"

text \<open>
  Lines 319-320: the interface rows of the device as a dict from key to row (a row is
  named by its identity); a later row replaces an earlier one under the same key.
\<close>

definition load_existing_ifaces :: "nat \<Rightarrow> db \<Rightarrow> (string \<times> nat) list" where
  "load_existing_ifaces device_id database =
     fold (\<lambda>i m. (iface_key i, i_id i) # m)
       (filter (\<lambda>i. i_device_id i = Some device_id) (interfaces database)) []"

text \<open>Lines 355-373: find or create the interface row; returns the row's identity.\<close>

definition upsert_interface ::
  "nat \<Rightarrow> string \<Rightarrow> string \<Rightarrow> string option \<Rightarrow> int option \<Rightarrow> db \<times> (string \<times> nat) list
     \<Rightarrow> (db \<times> (string \<times> nat) list) \<times> nat" where
  "upsert_interface device_id name oper_status mac speed_bps st =
     (let database = fst st; existing_ifaces = snd st
      in case map_of existing_ifaces name of
           Some k \<Rightarrow>
             ((set_interface k
                 (\<lambda>i. i\<lparr>i_status := Some oper_status,
                         i_mac_address := (case mac of None \<Rightarrow> i_mac_address i
                                           | Some m \<Rightarrow> if m \<noteq> [] then mac else i_mac_address i),
                         i_speed_bps := (case speed_bps of None \<Rightarrow> i_speed_bps i
                                         | Some v \<Rightarrow> speed_bps)\<rparr>)
                 database,
               existing_ifaces), k)
         | None \<Rightarrow>
             (let k = next_id (map i_id (interfaces database));
                  intf = \<lparr>i_id = k, i_device_id = Some device_id, i_interface_name = Some name,
                          i_mac_address = (case mac of None \<Rightarrow> None
                                           | Some m \<Rightarrow> if m \<noteq> [] then mac else None),
                          i_status = Some oper_status, i_speed_bps = speed_bps\<rparr>
              in ((database\<lparr>interfaces := interfaces database @ [intf]\<rparr>,
                   (name, k) # existing_ifaces), k)))"

text \<open>Lines 376-382.\<close>

definition add_stats :: "nat \<Rightarrow> timestamp \<Rightarrow> int \<Rightarrow> int \<Rightarrow> db \<Rightarrow> db" where
  "add_stats intf_id now in_bps out_bps database =
     database\<lparr>stats := stats database @
       [\<lparr>s_id = next_id (map s_id (stats database)), s_interface_id = intf_id, s_timestamp = now,
         s_in_bps = in_bps, s_out_bps = out_bps\<rparr>]\<rparr>"

text \<open>
  Lines 418-419, \<open>if device and not device.lldp_hostname: device.lldp_hostname = ...\<close>.
  The name \<open>device\<close> is bound nowhere: \<open>poll_device\<close> has the parameter
  \<open>device_info\<close> and the locals \<open>device_id\<close>, \<open>device_name\<close> and \<open>db_dev\<close>, and the
  module has no global of that name.  Evaluating the condition raises NameError and no
  assignment is made.
\<close>

definition update_source_lldp_hostname :: "nat \<Rightarrow> string \<Rightarrow> db \<Rightarrow> py_error + db" where
  "update_source_lldp_hostname device_id neighbor_name database = Inl NameError"

text \<open>
  Lines 400-419: find or create the DiscoveredDevice of an unmanaged neighbour.  The
  result is the database, the discovered row's identity, and the error raised, if any;
  the rows written before the error stay in the session.
\<close>

definition discover ::
  "nat \<Rightarrow> timestamp \<Rightarrow> neighbor \<Rightarrow> db \<Rightarrow> db \<times> nat option \<times> py_error option" where
  "discover device_id now nb database =
     (let found = find (\<lambda>x. dd_lldp_hostname x = nb_name nb) (discovered_devices database);
          step = (case found of
                    Some x \<Rightarrow> (set_discovered (dd_id x) (\<lambda>x. x\<lparr>dd_last_seen := now\<rparr>) database,
                               dd_id x)
                  | None \<Rightarrow>
                      (let k = next_id (map dd_id (discovered_devices database))
                       in (database\<lparr>discovered_devices := discovered_devices database @
                             [\<lparr>dd_id = k, dd_lldp_hostname = nb_name nb,
                               dd_ip_address = or_none (nb_ip nb),
                               dd_first_seen = now, dd_last_seen = now\<rparr>]\<rparr>, k)))
      in case update_source_lldp_hostname device_id (nb_name nb) (fst step) of
           Inl e \<Rightarrow> (fst step, Some (snd step), Some e)
         | Inr database' \<Rightarrow> (database', Some (snd step), None))"

definition new_link ::
  "nat \<Rightarrow> string \<Rightarrow> nat option \<Rightarrow> nat option \<Rightarrow> neighbor \<Rightarrow> timestamp \<Rightarrow> db \<Rightarrow> db" where
  "new_link device_id name dst_device dst_discovered nb now database =
     database\<lparr>topology_links := topology_links database @
       [\<lparr>l_id = next_id (map l_id (topology_links database)), l_src_device_id = device_id,
         l_src_interface = name, l_dst_device_id = dst_device,
         l_dst_discovered_device_id = dst_discovered, l_dst_hostname = Some (nb_name nb),
         l_dst_interface = nb_iface nb, l_last_seen = now\<rparr>]\<rparr>"

text \<open>Lines 422-485: the topology link of one neighbour.\<close>

definition link_neighbor ::
  "nat \<Rightarrow> string \<Rightarrow> timestamp \<Rightarrow> neighbor \<Rightarrow> device option \<Rightarrow> nat option \<Rightarrow> db \<Rightarrow> db" where
  "link_neighbor device_id name now nb neighbor_device discovered_device database =
     (if neighbor_device \<noteq> None \<or> discovered_device \<noteq> None \<or> nb_ip nb \<noteq> []
         \<or> nb_name nb \<noteq> []
      then case neighbor_device of
             Some nd \<Rightarrow>
               (case find (\<lambda>l. l_src_device_id l = device_id \<and> l_src_interface l = name
                               \<and> l_dst_device_id l = Some (d_id nd)
                               \<and> l_dst_interface l = nb_iface nb) (topology_links database) of
                  Some link \<Rightarrow> set_link (l_id link) (\<lambda>l. l\<lparr>l_last_seen := now\<rparr>) database
                | None \<Rightarrow> new_link device_id name (Some (d_id nd)) None nb now database)
           | None \<Rightarrow>
               (case discovered_device of
                  Some dk \<Rightarrow>
                    (case find (\<lambda>l. l_src_device_id l = device_id \<and> l_src_interface l = name
                                    \<and> l_dst_discovered_device_id l = Some dk
                                    \<and> l_dst_interface l = nb_iface nb)
                            (topology_links database) of
                       Some link \<Rightarrow> set_link (l_id link) (\<lambda>l. l\<lparr>l_last_seen := now\<rparr>) database
                     | None \<Rightarrow> new_link device_id name None (Some dk) nb now database)
                | None \<Rightarrow> new_link device_id name None None nb now database)
      else database)"

text \<open>Lines 385-485 for a neighbour found under the interface's index.\<close>

definition process_neighbor ::
  "nat \<Rightarrow> string \<Rightarrow> timestamp \<Rightarrow> neighbor \<Rightarrow> db \<Rightarrow> db \<times> py_error option" where
  "process_neighbor device_id name now nb database =
     (let neighbor_device =
            (if nb_ip nb \<noteq> []
             then find (\<lambda>d. d_ip_address d = nb_ip nb) (devices database) else None)
      in if neighbor_device = None \<and> nb_name nb \<noteq> []
         then case discover device_id now nb database of
                (database', discovered_device, Some e) \<Rightarrow> (database', Some e)
              | (database', discovered_device, None) \<Rightarrow>
                  (link_neighbor device_id name now nb neighbor_device discovered_device database',
                   None)
         else (link_neighbor device_id name now nb neighbor_device None database, None))"

text \<open>
  The body of the loop over the description walk, lines 324-485, for one item.  The
  state is the session's view of the database and the dict \<open>existing_ifaces\<close>; the
  error, if any, is the exception the \<open>except\<close> of line 487 catches and logs.
\<close>

definition process_interface ::
  "nat \<Rightarrow> int \<Rightarrow> timestamp \<Rightarrow> snmp_replies \<Rightarrow> (string \<times> neighbor) list \<Rightarrow> string \<times> string
     \<Rightarrow> db \<times> (string \<times> nat) list \<Rightarrow> (db \<times> (string \<times> nat) list) \<times> py_error option" where
  "process_interface device_id interval now replies neighbors item st =
     (let name = clean (snd item);
          index = oid_index (fst item);
          oper_raw = walk_get (r_if_oper replies) (IF_OPER_STATUS_OID @ ''.'' @ index);
          oper_status_val = (case oper_raw of None \<Rightarrow> 2 | Some v \<Rightarrow> v);
          oper_status = (if oper_status_val = 1 then ''up'' else ''down'');
          in_oct = (case walk_get (r_if_in replies) (IF_IN_OCTETS_OID @ ''.'' @ index) of
                      None \<Rightarrow> 0 | Some v \<Rightarrow> v);
          out_oct = (case walk_get (r_if_out replies) (IF_OUT_OCTETS_OID @ ''.'' @ index) of
                       None \<Rightarrow> 0 | Some v \<Rightarrow> v);
          mac_raw = walk_get (r_if_mac replies) (IF_MAC_OID @ ''.'' @ index);
          mac = (case mac_raw of None \<Rightarrow> None
                 | Some raw \<Rightarrow> if raw \<noteq> [] then format_mac_address (MacBytes raw) else None)
      in case bps_of in_oct interval of
           Inl e \<Rightarrow> (st, Some e)
         | Inr in_bps \<Rightarrow>
             (case bps_of out_oct interval of
                Inl e \<Rightarrow> (st, Some e)
              | Inr out_bps \<Rightarrow>
                  (let speed_bps = speed_of in_oct interval;
                       up = upsert_interface device_id name oper_status mac speed_bps st;
                       database = add_stats (snd up) now in_bps out_bps (fst (fst up));
                       existing_ifaces = snd (fst up)
                   in case map_of neighbors index of
                        None \<Rightarrow> ((database, existing_ifaces), None)
                      | Some nb \<Rightarrow>
                          (let r = process_neighbor device_id name now nb database
                           in ((fst r, existing_ifaces), snd r)))))"

subsection \<open>poll_device\<close>

record device_info =
  di_id :: nat
  di_hostname :: "string option"
  di_ip_address :: string
  di_snmp_community :: "string option"

text \<open>Lines 323-489: every item is processed; an item's error never ends the loop.\<close>

fun poll_interfaces ::
  "nat \<Rightarrow> int \<Rightarrow> timestamp \<Rightarrow> snmp_replies \<Rightarrow> (string \<times> neighbor) list
     \<Rightarrow> (string \<times> string) list \<Rightarrow> db \<times> (string \<times> nat) list \<Rightarrow> db \<times> (string \<times> nat) list" where
  "poll_interfaces device_id interval now replies neighbors [] st = st"
| "poll_interfaces device_id interval now replies neighbors (item # items) st =
     poll_interfaces device_id interval now replies neighbors items
       (fst (process_interface device_id interval now replies neighbors item st))"

text \<open>
  \<open>poll_device\<close>, lines 271-515, on the replies of the device's walks.  \<open>now\<close> is the
  time of the cycle and \<open>commit_ok\<close> says whether the commit succeeds; a failed commit
  is rolled back, which leaves the database as it was.
\<close>

definition poll_device ::
  "device_info \<Rightarrow> int \<Rightarrow> snmp_replies \<Rightarrow> timestamp \<Rightarrow> bool \<Rightarrow> db \<Rightarrow> db" where
  "poll_device info interval replies now commit_ok database =
     (let target = di_ip_address info; device_id = di_id info
      in if target = [] then database
         else if \<not> walk_ok (r_if_descr replies)
         then (if commit_ok
               then set_device device_id (\<lambda>d. d\<lparr>d_status := Some ''down'', d_last_seen := None\<rparr>)
                      database
               else database)
         else
           (let neighbors = get_lldp_neighbors (r_lldp_sysnames replies) (r_lldp_portdesc replies)
                              (r_lldp_manaddr replies);
                existing_ifaces = load_existing_ifaces device_id database;
                st = poll_interfaces device_id interval now replies neighbors
                       (walk_items (r_if_descr replies)) (database, existing_ifaces);
                database' = set_device device_id
                              (\<lambda>d. d\<lparr>d_status := Some ''up'', d_last_seen := Some now\<rparr>) (fst st)
            in if commit_ok then database' else database))"

section \<open>One cycle of the fleet scheduler (poll_all_devices)\<close>

subsection \<open>Phase A: reachability\<close>

text \<open>
  \<open>async_ping\<close>, lines 117-148: false for an empty host, otherwise whether a TCP connect
  to port 161 or 22 succeeds, which is a fact about the network given here as \<open>reachable\<close>.
\<close>

definition async_ping :: "(string \<Rightarrow> bool) \<Rightarrow> string \<Rightarrow> bool" where
  "async_ping reachable host = (host \<noteq> [] \<and> reachable host)"

text \<open>Lines 562-572 for one ping result.\<close>

definition ping_update :: "timestamp \<Rightarrow> nat \<times> string \<times> bool \<Rightarrow> db \<Rightarrow> db" where
  "ping_update now result database =
     (case result of (dev_id, ip, ok) \<Rightarrow>
        set_device dev_id
          (\<lambda>d. if ok then d\<lparr>d_status := Some ''up'', d_last_seen := Some now\<rparr>
                else d\<lparr>d_status := Some ''down'', d_last_seen := None\<rparr>)
          database)"

text \<open>Lines 541-582: ping every device, then write the statuses in one transaction.\<close>

definition reachability_phase ::
  "(string \<Rightarrow> bool) \<Rightarrow> timestamp \<Rightarrow> bool \<Rightarrow> device_info list \<Rightarrow> db \<Rightarrow> db" where
  "reachability_phase reachable now commit_ok device_infos database =
     (let ping_results =
            map (\<lambda>info. (di_id info, di_ip_address info, async_ping reachable (di_ip_address info)))
              device_infos
      in if commit_ok then fold (ping_update now) ping_results database else database)"

subsection \<open>Phase B: the protocol sweep\<close>

text \<open>
  \<open>sem_task\<close>, lines 588-603, runs once per device and the tasks interleave at their
  \<open>await\<close>s.  A task waits for the semaphore, then holds a slot while it reads the
  device's status, then either returns (releasing the slot) or runs \<open>poll_device\<close> and
  releases the slot when the poll has ended.  The writes of a poll become visible at its
  commit, so a poll's end is one step.
\<close>

datatype pc = Waiting | Holding | Polling | Finished

record sweep =
  sw_db :: db
  sw_free :: nat
  sw_pc :: "pc list"
  sw_polled :: "nat list"

text \<open>Line 598: \<open>db_dev and db_dev.status == "down"\<close>\<close>

definition is_down :: "db \<Rightarrow> nat \<Rightarrow> bool" where
  "is_down database dev_id =
     (case get_device (devices database) (Some dev_id) of
        None \<Rightarrow> False
      | Some db_dev \<Rightarrow> d_status db_dev = Some ''down'')"

text \<open>
  What can happen next: task \<open>i\<close> enters \<open>async with sem\<close>; task \<open>i\<close> reads the status
  and branches; the poll of task \<open>i\<close> ends, with the replies the device gave, the time
  and the outcome of the commit.
\<close>

datatype action = Acquire nat | Check nat | Complete nat snmp_replies timestamp bool

definition max_concurrency :: nat where
  "max_concurrency = 20"

definition sweep_start :: "device_info list \<Rightarrow> db \<Rightarrow> sweep" where
  "sweep_start device_infos database =
     \<lparr>sw_db = database, sw_free = max_concurrency,
      sw_pc = replicate (length device_infos) Waiting, sw_polled = []\<rparr>"

fun sweep_step :: "device_info list \<Rightarrow> int \<Rightarrow> sweep \<Rightarrow> action \<Rightarrow> sweep option" where
  "sweep_step device_infos interval s (Acquire i) =
     (if i < length (sw_pc s) \<and> sw_pc s ! i = Waiting \<and> 0 < sw_free s
      then Some (s\<lparr>sw_free := sw_free s - 1, sw_pc := (sw_pc s)[i := Holding]\<rparr>)
      else None)"
| "sweep_step device_infos interval s (Check i) =
     (if i < length (sw_pc s) \<and> i < length device_infos \<and> sw_pc s ! i = Holding
      then if is_down (sw_db s) (di_id (device_infos ! i))
           then Some (s\<lparr>sw_free := sw_free s + 1, sw_pc := (sw_pc s)[i := Finished]\<rparr>)
           else Some (s\<lparr>sw_pc := (sw_pc s)[i := Polling], sw_polled := sw_polled s @ [i]\<rparr>)
      else None)"
| "sweep_step device_infos interval s (Complete i replies now commit_ok) =
     (if i < length (sw_pc s) \<and> i < length device_infos \<and> sw_pc s ! i = Polling
      then Some (s\<lparr>sw_db := poll_device (device_infos ! i) interval replies now commit_ok (sw_db s),
                    sw_free := sw_free s + 1, sw_pc := (sw_pc s)[i := Finished]\<rparr>)
      else None)"

text \<open>A run of the sweep under a schedule; \<open>None\<close> when the schedule asks for a step
  that cannot happen.\<close>

fun sweep_run :: "device_info list \<Rightarrow> int \<Rightarrow> sweep \<Rightarrow> action list \<Rightarrow> sweep option" where
  "sweep_run device_infos interval s [] = Some s"
| "sweep_run device_infos interval s (a # as) =
     (case sweep_step device_infos interval s a of
        None \<Rightarrow> None
      | Some s' \<Rightarrow> sweep_run device_infos interval s' as)"

subsection \<open>Example rows\<close>

definition example_device :: "nat \<Rightarrow> string \<Rightarrow> string \<Rightarrow> device" where
  "example_device n h ip =
     \<lparr>d_id = n, d_hostname = Some h, d_ip_address = ip, d_status = Some ''unknown'',
      d_last_seen = None, d_lldp_hostname = None\<rparr>"

definition example_link :: "nat \<Rightarrow> string \<Rightarrow> topology_link" where
  "example_link n label =
     \<lparr>l_id = n, l_src_device_id = 1, l_src_interface = ''Gi0/1'', l_dst_device_id = None,
      l_dst_discovered_device_id = None, l_dst_hostname = Some label, l_dst_interface = ''Gi0/2'',
      l_last_seen = 0\<rparr>"

definition example_info :: "nat \<Rightarrow> string \<Rightarrow> device_info" where
  "example_info n ip =
     \<lparr>di_id = n, di_hostname = None, di_ip_address = ip, di_snmp_community = None\<rparr>"

text \<open>
  Replies of a device with one interface \<open>eth0\<close> at index 1, whose LLDP neighbour at
  index 1 announces the given system name and management address on port \<open>Gi0/2\<close>.
\<close>

definition example_replies :: "string \<Rightarrow> string \<Rightarrow> snmp_replies" where
  "example_replies sysname addr =
     \<lparr>r_if_descr = Some [(''1.3.6.1.2.1.2.2.1.2.1'', ''eth0'')],
      r_if_oper = Some [(''1.3.6.1.2.1.2.2.1.8.1'', 1)],
      r_if_in = Some [(''1.3.6.1.2.1.2.2.1.10.1'', 1000)],
      r_if_out = Some [(''1.3.6.1.2.1.2.2.1.16.1'', 2000)],
      r_if_mac = Some [(''1.3.6.1.2.1.2.2.1.6.1'', [0, 17, 34, 51, 68, 85])],
      r_lldp_sysnames = Some [(''1.0.8802.1.1.2.1.4.1.1.9.1'', sysname)],
      r_lldp_portdesc = Some [(''1.0.8802.1.1.2.1.4.1.1.8.1'', ''Gi0/2'')],
      r_lldp_manaddr = Some [(''1.0.8802.1.1.2.1.4.2.1.4.1'', addr)]\<rparr>"

definition example_db :: db where
  "example_db =
     \<lparr>devices = [example_device 1 ''core-sw1'' ''10.0.0.1'', example_device 2 ''edge-sw2'' ''10.0.0.2''],
      interfaces = [], stats = [], discovered_devices = [], topology_links = []\<rparr>"

section \<open>Observations used in the properties\<close>

text \<open>The key of a topology link: source device, source interface, resolved destination
  (managed device or discovered device, both null when unresolved), destination interface.\<close>

definition link_key :: "topology_link \<Rightarrow> nat \<times> string \<times> nat option \<times> nat option \<times> string" where
  "link_key l =
     (l_src_device_id l, l_src_interface l, l_dst_device_id l, l_dst_discovered_device_id l,
      l_dst_interface l)"



text \<open>
  What holds during the sweep for the tasks whose device was down in \<open>database\<close>, the
  database the sweep starts from: the task has not polled and is not polling, and until
  it has finished its device is still down.
\<close>

definition sweep_inv :: "device_info list \<Rightarrow> db \<Rightarrow> sweep \<Rightarrow> bool" where
  "sweep_inv device_infos database s =
     (length (sw_pc s) = length device_infos \<and>
      (\<forall>i<length device_infos.
         is_down database (di_id (device_infos ! i)) \<longrightarrow>
           i \<notin> set (sw_polled s) \<and> sw_pc s ! i \<noteq> Polling \<and>
           (sw_pc s ! i \<noteq> Finished \<longrightarrow> is_down (sw_db s) (di_id (device_infos ! i)))))"


section \<open>Properties of the utility functions\<close>





lemma strip_Nil: "strip [] = []"
  by (simp add: strip_def)

lemma remove_nul_Nil: "remove_nul [] = []"
  by (simp add: remove_nul_def)

text \<open>
  C4, as the code has it: a byte sequence of six or more bytes is rendered from its first
  six bytes as lowercase colon-separated hex (AA BB CC DD EE FF gives
  \<open>aa:bb:cc:dd:ee:ff\<close>), extra bytes being ignored; fewer than six bytes give \<open>None\<close>.
  A string is first cleaned (NULs removed, surrounding whitespace stripped): if the
  cleaned string contains a colon it is returned in that cleaned form, otherwise its
  Latin-1 bytes are treated as a raw byte sequence.  \<open>None\<close>, an empty value and a
  value without a length give \<open>None\<close>.
\<close>

theorem format_mac_address_shapes:
  "format_mac_address (MacBytes [0xAA, 0xBB, 0xCC, 0xDD, 0xEE, 0xFF]) = Some ''aa:bb:cc:dd:ee:ff''
   \<and> (6 \<le> length bs \<longrightarrow>
        format_mac_address (MacBytes bs) = Some (join '':'' (map hex2 (take 6 bs))))
   \<and> (length cs < 6 \<longrightarrow> format_mac_address (MacBytes cs) = None)
   \<and> (CHR '':'' \<in> set (strip (remove_nul s)) \<longrightarrow>
        format_mac_address (MacStr s) = Some (strip (remove_nul s)))
   \<and> (CHR '':'' \<notin> set (strip (remove_nul t)) \<longrightarrow>
        format_mac_address (MacStr t) =
          (if length (strip (remove_nul t)) < 6 then None
           else mac_of_bytes (encode_latin1 (strip (remove_nul t)))))
   \<and> format_mac_address MacNone = None
   \<and> format_mac_address (MacInt i) = None"
proof -
  have ex: "format_mac_address (MacBytes [0xAA, 0xBB, 0xCC, 0xDD, 0xEE, 0xFF]) = Some ''aa:bb:cc:dd:ee:ff''"
    by code_simp
  have long: "6 \<le> length bs \<longrightarrow>
        format_mac_address (MacBytes bs) = Some (join '':'' (map hex2 (take 6 bs)))"
    by (auto simp: mac_of_bytes_def)
  have short: "length cs < 6 \<longrightarrow> format_mac_address (MacBytes cs) = None"
    by (simp add: mac_of_bytes_def)
  have colon: "CHR '':'' \<in> set (strip (remove_nul s)) \<longrightarrow>
        format_mac_address (MacStr s) = Some (strip (remove_nul s))"
    by (cases "s = []") (auto simp: Let_def strip_Nil remove_nul_Nil)
  have raw: "CHR '':'' \<notin> set (strip (remove_nul t)) \<longrightarrow>
        format_mac_address (MacStr t) =
          (if length (strip (remove_nul t)) < 6 then None
           else mac_of_bytes (encode_latin1 (strip (remove_nul t))))"
    by (cases "t = []")
      (auto simp: Let_def mac_of_bytes_def encode_latin1_def strip_Nil remove_nul_Nil)
  from ex long short colon raw show ?thesis by simp
qed

theorem format_mac_address_shapes_witness:
  "format_mac_address (MacBytes [1, 2, 3, 4, 5, 6, 7, 8]) = Some ''01:02:03:04:05:06''
   \<and> format_mac_address (MacBytes [1, 2, 3]) = None
   \<and> format_mac_address (MacStr '' 00:1a:2b:3c:4d:5e '') = Some ''00:1a:2b:3c:4d:5e''
   \<and> format_mac_address (MacStr ''abcdef'') = Some ''61:62:63:64:65:66''"
proof -
  have l: "6 \<le> length [1, 2, 3, 4, 5, 6, 7, 8 :: 8 word]" by simp
  have c: "length [1, 2, 3 :: 8 word] < 6" by simp
  have s: "strip (remove_nul '' 00:1a:2b:3c:4d:5e '') = ''00:1a:2b:3c:4d:5e''" by code_simp
  have t: "strip (remove_nul ''abcdef'') = ''abcdef''" by code_simp
  have j: "join '':'' (map hex2 (take 6 [1, 2, 3, 4, 5, 6, 7, 8])) = ''01:02:03:04:05:06''"
    by code_simp
  have m: "mac_of_bytes (encode_latin1 ''abcdef'') = Some ''61:62:63:64:65:66''" by code_simp
  show ?thesis
    using format_mac_address_shapes [where bs = "[1, 2, 3, 4, 5, 6, 7, 8]" and cs = "[1, 2, 3]"
        and s = "'' 00:1a:2b:3c:4d:5e ''" and t = "''abcdef''"] l c s t j m
    by simp
qed

theorem format_mac_address_other_shape_counterexample:
  "length [0xAA, 0xBB, 0xCC, 0xDD, 0xEE, 0xFF, 0x01 :: 8 word] \<noteq> 6
   \<and> format_mac_address (MacBytes [0xAA, 0xBB, 0xCC, 0xDD, 0xEE, 0xFF, 0x01])
       = Some ''aa:bb:cc:dd:ee:ff''"
  by code_simp

section \<open>Properties of the backfill matcher\<close>

subsection \<open>Substrings survive \<open>strip\<close> and \<open>lower\<close>\<close>

lemma starts_with_iff: "starts_with p s \<longleftrightarrow> (\<exists>ss. s = p @ ss)"
  by (induction p s rule: starts_with.induct) auto

lemma str_in_iff: "str_in sub s \<longleftrightarrow> (\<exists>ps ss. s = ps @ sub @ ss)"
proof (induction s)
  case Nil
  then show ?case by auto
next
  case (Cons c cs)
  show ?case
  proof
    assume "str_in sub (c # cs)"
    then consider "starts_with sub (c # cs)" | "str_in sub cs" by auto
    then show "\<exists>ps ss. c # cs = ps @ sub @ ss"
    proof cases
      case 1
      then obtain ss where "c # cs = sub @ ss" using starts_with_iff by blast
      then have "c # cs = [] @ sub @ ss" by simp
      then show ?thesis by blast
    next
      case 2
      then obtain ps ss where "cs = ps @ sub @ ss" using Cons.IH by blast
      then have "c # cs = (c # ps) @ sub @ ss" by simp
      then show ?thesis by blast
    qed
  next
    assume "\<exists>ps ss. c # cs = ps @ sub @ ss"
    then obtain ps ss where eq: "c # cs = ps @ sub @ ss" by blast
    show "str_in sub (c # cs)"
    proof (cases ps)
      case Nil
      then have "starts_with sub (c # cs)" using eq starts_with_iff by auto
      then show ?thesis by simp
    next
      case (Cons p ps')
      then have "cs = ps' @ sub @ ss" using eq by simp
      then have "str_in sub cs" using Cons.IH by blast
      then show ?thesis by simp
    qed
  qed
qed

lemma dropWhile_keeps_run:
  assumes "sub \<noteq> []" and "\<not> P (hd sub)"
  shows "\<exists>ps'. dropWhile P (ps @ sub @ ss) = ps' @ sub @ ss"
proof (cases "\<forall>x\<in>set ps. P x")
  case True
  from assms obtain a as where sub: "sub = a # as" and a: "\<not> P a" by (cases sub) auto
  have "dropWhile P (ps @ sub @ ss) = dropWhile P (sub @ ss)"
    using True by (simp add: dropWhile_append2)
  also have "\<dots> = [] @ sub @ ss" using sub a by simp
  finally show ?thesis by blast
next
  case False
  then obtain x where "x \<in> set ps" and "\<not> P x" by blast
  then have "dropWhile P (ps @ sub @ ss) = dropWhile P ps @ sub @ ss"
    by (simp add: dropWhile_append1)
  then show ?thesis by blast
qed

lemma strip_keeps_run:
  assumes "sub \<noteq> []" and "\<forall>c\<in>set sub. \<not> is_space c" and "s = ps @ sub @ ss"
  shows "\<exists>ps' ss'. strip s = ps' @ sub @ ss'"
proof -
  have h: "\<not> is_space (hd sub)" and l: "\<not> is_space (hd (rev sub))"
    using assms(1,2) by (simp_all add: hd_rev)
  obtain ps' where 1: "dropWhile is_space s = ps' @ sub @ ss"
    using dropWhile_keeps_run [of sub is_space ps ss] assms(1,3) h by blast
  have "rev (dropWhile is_space s) = rev ss @ rev sub @ rev ps'" using 1 by simp
  moreover have "rev sub \<noteq> []" using assms(1) by simp
  ultimately obtain ss' where "dropWhile is_space (rev (dropWhile is_space s)) = ss' @ rev sub @ rev ps'"
    using dropWhile_keeps_run [of "rev sub" is_space "rev ss" "rev ps'"] l by auto
  then have "strip s = ps' @ sub @ rev ss'" by (simp add: strip_def)
  then show ?thesis by blast
qed

lemma code_point_char_of: "n < 256 \<Longrightarrow> code_point (char_of n) = n"
  by (simp add: code_point_def)

lemma is_space_lower_char: "is_space (lower_char c) = is_space c"
  by (auto simp: is_space_def lower_char_def Let_def code_point_char_of)

lemma lower_strip: "lower (strip s) = strip (lower s)"
proof -
  have "is_space \<circ> lower_char = is_space" by (rule ext) (simp add: is_space_lower_char)
  then show ?thesis
    by (simp add: lower_def strip_def rev_map dropWhile_map)
qed

lemma str_in_lower_strip:
  assumes "sub \<noteq> []" and "\<forall>c\<in>set sub. \<not> is_space c" and "str_in sub (lower label)"
  shows "str_in sub (lower (strip label))"
proof -
  from assms(3) obtain ps ss where "lower label = ps @ sub @ ss" using str_in_iff by blast
  from strip_keeps_run [OF assms(1,2) this] show ?thesis
    by (simp add: lower_strip str_in_iff)
qed

lemma str_in_nonempty: "sub \<noteq> [] \<Longrightarrow> str_in sub s \<Longrightarrow> s \<noteq> []"
  by (cases s) auto

lemma markers_plain:
  "m \<in> {''adapter'', ''firmware'', ''fw_version''} \<Longrightarrow> m \<noteq> [] \<and> (\<forall>c\<in>set m. \<not> is_space c)"
  by (auto simp: is_space_def code_point_def)

lemma non_device_marker:
  assumes "m \<in> {''adapter'', ''firmware'', ''fw_version''}" and "str_in m (lower label)"
  shows "non_device (strip label)"
proof -
  from markers_plain [OF assms(1)] have ne: "m \<noteq> []" and pl: "\<forall>c\<in>set m. \<not> is_space c" by simp_all
  have in': "str_in m (lower (strip label))" by (rule str_in_lower_strip [OF ne pl assms(2)])
  then have "lower (strip label) \<noteq> []" using ne str_in_nonempty by blast
  then have "strip label \<noteq> []" by (auto simp: lower_def)
  then show ?thesis using in' assms(1) by (auto simp: non_device_def)
qed

text \<open>
  C6: a link whose label contains "adapter", "firmware" or "fw_version", in any letter
  case, resolves to no device whatever the devices and interfaces are: the loop counts
  it, applies no strategy, records no suggestion and leaves the link as it was.
\<close>

theorem backfill_skips_non_device_labels:
  assumes "l_dst_hostname link = Some label"
    and "m \<in> {''adapter'', ''firmware'', ''fw_version''}"
    and "str_in m (lower label)"
  shows "resolve_link all_devices all_ifaces link = Inr None
    \<and> backfill_loop dry_run all_devices all_ifaces (link # links) st =
        backfill_loop dry_run all_devices all_ifaces links
          (st\<lparr>processed := processed st + 1, visited := visited st @ [link]\<rparr>)"
proof -
  have r: "resolve_link all_devices all_ifaces link = Inr None"
    using non_device_marker [OF assms(2,3)] assms(1) by (simp add: resolve_link_def)
  then show ?thesis by (simp add: Let_def)
qed

theorem backfill_skips_non_device_labels_witness:
  "resolve_link [example_device 3 ''usb ethernet adapter #3'' ''10.0.0.3''] []
     (example_link 5 ''USB Ethernet Adapter #3'') = Inr None"
proof -
  have l: "l_dst_hostname (example_link 5 ''USB Ethernet Adapter #3'') = Some ''USB Ethernet Adapter #3''"
    by (simp add: example_link_def)
  have m: "''adapter'' \<in> {''adapter'', ''firmware'', ''fw_version''}" by simp
  have s: "str_in ''adapter'' (lower ''USB Ethernet Adapter #3'')" by code_simp
  from backfill_skips_non_device_labels [OF l m s] show ?thesis by blast
qed














section \<open>Properties of the device poll\<close>

subsection \<open>Which tables an operation writes\<close>

lemma set_interface_frame:
  "devices (set_interface k f database) = devices database"
  "stats (set_interface k f database) = stats database"
  "discovered_devices (set_interface k f database) = discovered_devices database"
  "topology_links (set_interface k f database) = topology_links database"
  by (simp_all add: set_interface_def)

lemma upsert_interface_frame:
  "devices (fst (fst (upsert_interface dev name os mac sp st))) = devices (fst st)"
  "stats (fst (fst (upsert_interface dev name os mac sp st))) = stats (fst st)"
  "discovered_devices (fst (fst (upsert_interface dev name os mac sp st))) = discovered_devices (fst st)"
  "topology_links (fst (fst (upsert_interface dev name os mac sp st))) = topology_links (fst st)"
  by (simp_all add: upsert_interface_def Let_def set_interface_frame split: option.splits)

lemma add_stats_frame:
  "devices (add_stats k now a b database) = devices database"
  "interfaces (add_stats k now a b database) = interfaces database"
  "discovered_devices (add_stats k now a b database) = discovered_devices database"
  "topology_links (add_stats k now a b database) = topology_links database"
  by (simp_all add: add_stats_def)

lemma discover_frame:
  "devices (fst (discover dev now nb database)) = devices database"
  "interfaces (fst (discover dev now nb database)) = interfaces database"
  "stats (fst (discover dev now nb database)) = stats database"
  "topology_links (fst (discover dev now nb database)) = topology_links database"
  by (simp_all add: discover_def Let_def update_source_lldp_hostname_def set_discovered_def
      split: option.splits)

lemma discover_raises: "snd (snd (discover dev now nb database)) = Some NameError"
  by (simp add: discover_def Let_def update_source_lldp_hostname_def)

lemma link_neighbor_frame:
  "devices (link_neighbor dev name now nb nd dk database) = devices database"
  "interfaces (link_neighbor dev name now nb nd dk database) = interfaces database"
  "stats (link_neighbor dev name now nb nd dk database) = stats database"
  "discovered_devices (link_neighbor dev name now nb nd dk database) = discovered_devices database"
  by (simp_all add: link_neighbor_def new_link_def set_link_def split: option.splits)

lemma process_neighbor_frame:
  "devices (fst (process_neighbor dev name now nb database)) = devices database"
  "interfaces (fst (process_neighbor dev name now nb database)) = interfaces database"
  "stats (fst (process_neighbor dev name now nb database)) = stats database"
proof -
  obtain a b c where d: "discover dev now nb database = (a, b, c)" by (cases "discover dev now nb database")
  have da: "devices a = devices database" "interfaces a = interfaces database" "stats a = stats database"
    using discover_frame [of dev now nb database] d by simp_all
  show "devices (fst (process_neighbor dev name now nb database)) = devices database"
    "interfaces (fst (process_neighbor dev name now nb database)) = interfaces database"
    "stats (fst (process_neighbor dev name now nb database)) = stats database"
    by (simp_all add: process_neighbor_def Let_def d da link_neighbor_frame split: option.splits)
qed

lemma process_interface_devices:
  "devices (fst (fst (process_interface dev iv now replies nbs item st))) = devices (fst st)"
  by (simp add: process_interface_def Let_def process_neighbor_frame add_stats_frame
      upsert_interface_frame split: sum.splits option.splits)

lemma poll_interfaces_devices:
  "devices (fst (poll_interfaces dev iv now replies nbs items st)) = devices (fst st)"
  by (induction items arbitrary: st) (simp_all add: process_interface_devices)

lemma set_device_frame:
  "interfaces (set_device k f database) = interfaces database"
  "stats (set_device k f database) = stats database"
  "discovered_devices (set_device k f database) = discovered_devices database"
  "topology_links (set_device k f database) = topology_links database"
  by (simp_all add: set_device_def)

lemma walk_ok_failed: "w = None \<or> w = Some [] \<Longrightarrow> \<not> walk_ok w"
  by (auto simp: walk_ok_def)

subsection \<open>A failed description walk\<close>

text \<open>
  C3: when the interface-description walk of a device with an IP fails or is empty, the
  poll writes no Interface row and no InterfaceStat row (nor any discovered device or
  link), and the committed change is exactly: the polled device's status is "down" and
  its last-seen is cleared.
\<close>

theorem poll_device_descr_walk_failed:
  assumes "di_ip_address info \<noteq> []"
    and "r_if_descr replies = None \<or> r_if_descr replies = Some []"
  shows "interfaces (poll_device info interval replies now commit_ok database) = interfaces database
    \<and> stats (poll_device info interval replies now commit_ok database) = stats database
    \<and> discovered_devices (poll_device info interval replies now commit_ok database)
        = discovered_devices database
    \<and> topology_links (poll_device info interval replies now commit_ok database)
        = topology_links database
    \<and> (commit_ok \<longrightarrow>
         devices (poll_device info interval replies now commit_ok database)
           = map (\<lambda>d. if d_id d = di_id info
                       then d\<lparr>d_status := Some ''down'', d_last_seen := None\<rparr> else d)
               (devices database)
         \<and> (\<forall>d\<in>set (devices (poll_device info interval replies now commit_ok database)).
               d_id d = di_id info \<longrightarrow> d_status d = Some ''down'' \<and> d_last_seen d = None))"
proof -
  have nw: "\<not> walk_ok (r_if_descr replies)" by (rule walk_ok_failed [OF assms(2)])
  have p: "poll_device info interval replies now commit_ok database =
      (if commit_ok
       then set_device (di_id info) (\<lambda>d. d\<lparr>d_status := Some ''down'', d_last_seen := None\<rparr>) database
       else database)"
    using assms(1) nw by (simp add: poll_device_def Let_def)
  show ?thesis
    unfolding p by (auto simp: set_device_frame set_device_def)
qed

theorem poll_device_descr_walk_failed_witness:
  "devices (poll_device (example_info 1 ''10.0.0.1'') 5
       ((example_replies ''sw-x'' '''')\<lparr>r_if_descr := None\<rparr>) 100 True example_db)
     = [(example_device 1 ''core-sw1'' ''10.0.0.1'')\<lparr>d_status := Some ''down''\<rparr>,
        example_device 2 ''edge-sw2'' ''10.0.0.2'']
   \<and> interfaces (poll_device (example_info 1 ''10.0.0.1'') 5
       ((example_replies ''sw-x'' '''')\<lparr>r_if_descr := None\<rparr>) 100 True example_db) = []
   \<and> stats (poll_device (example_info 1 ''10.0.0.1'') 5
       ((example_replies ''sw-x'' '''')\<lparr>r_if_descr := None\<rparr>) 100 True example_db) = []"
proof -
  have a: "di_ip_address (example_info 1 ''10.0.0.1'') \<noteq> []" by (simp add: example_info_def)
  have b: "r_if_descr ((example_replies ''sw-x'' '''')\<lparr>r_if_descr := None\<rparr>) = None
         \<or> r_if_descr ((example_replies ''sw-x'' '''')\<lparr>r_if_descr := None\<rparr>) = Some []"
    by simp
  from poll_device_descr_walk_failed [OF a b, of 5 100 True example_db]
  show ?thesis by (simp add: example_db_def example_device_def example_info_def)
qed

subsection \<open>Links and discovered neighbours\<close>

lemma process_neighbor_fallback_appends:
  assumes "nb_name nb = []" and "nb_ip nb \<noteq> []"
    and "find (\<lambda>d. d_ip_address d = nb_ip nb) (devices database) = None"
  shows "topology_links (fst (process_neighbor device_id name now nb database))
     = topology_links database @
         [\<lparr>l_id = next_id (map l_id (topology_links database)), l_src_device_id = device_id,
           l_src_interface = name, l_dst_device_id = None, l_dst_discovered_device_id = None,
           l_dst_hostname = Some [], l_dst_interface = nb_iface nb, l_last_seen = now\<rparr>]"
  using assms by (simp add: process_neighbor_def link_neighbor_def new_link_def)

text \<open>
  C1, what the code does: a neighbour that announces no system name and an address that
  is no managed device's takes the fallback branch of lines 473-484, which adds a link
  without looking for an existing one.  Polling the same device twice with the same
  replies leaves two rows with the same (source device, source interface, no destination,
  destination interface) key.
\<close>

theorem poll_device_fallback_link_duplicated:
  "map link_key (topology_links
      (poll_device (example_info 1 ''10.0.0.1'') 5 (example_replies '''' ''10.9.9.9'') 200 True
        (poll_device (example_info 1 ''10.0.0.1'') 5 (example_replies '''' ''10.9.9.9'') 100 True
           example_db)))
   = [(1, ''eth0'', None, None, ''Gi0/2''), (1, ''eth0'', None, None, ''Gi0/2'')]"
  by code_simp

lemma poll_device_devices:
  "devices (poll_device info interval replies now commit_ok database) = devices database
   \<or> devices (poll_device info interval replies now commit_ok database)
       = devices (set_device (di_id info) (\<lambda>d. d\<lparr>d_status := Some ''down'', d_last_seen := None\<rparr>) database)
   \<or> devices (poll_device info interval replies now commit_ok database)
       = devices (set_device (di_id info) (\<lambda>d. d\<lparr>d_status := Some ''up'', d_last_seen := Some now\<rparr>) database)"
  by (simp add: poll_device_def Let_def set_device_def poll_interfaces_devices)

lemma poll_device_keeps_lldp_hostname:
  "map d_lldp_hostname (devices (poll_device info interval replies now commit_ok database))
     = map d_lldp_hostname (devices database)"
  using poll_device_devices [of info interval replies now commit_ok database]
  by (auto simp: set_device_def)

text \<open>
  C2, what the code does: no poll changes the discovered hostname of any device.  For a
  neighbour named \<open>sw-x\<close> that is no managed device, the DiscoveredDevice is
  created, but the polled device, which has no discovered hostname yet, still has none
  after the poll: line 418 raises NameError before the assignment.
\<close>

theorem poll_device_lldp_hostname_not_set:
  "map d_lldp_hostname (devices (poll_device info interval replies now commit_ok database))
     = map d_lldp_hostname (devices database)
   \<and> map d_lldp_hostname (devices example_db) = [None, None]
   \<and> map dd_lldp_hostname (discovered_devices
        (poll_device (example_info 1 ''10.0.0.1'') 5 (example_replies ''sw-x'' '''') 100 True
           example_db)) = [''sw-x'']
   \<and> map d_lldp_hostname (devices
        (poll_device (example_info 1 ''10.0.0.1'') 5 (example_replies ''sw-x'' '''') 100 True
           example_db)) = [None, None]"
proof -
  have e: "map d_lldp_hostname (devices example_db) = [None, None]
   \<and> map dd_lldp_hostname (discovered_devices
        (poll_device (example_info 1 ''10.0.0.1'') 5 (example_replies ''sw-x'' '''') 100 True
           example_db)) = [''sw-x'']
   \<and> map d_lldp_hostname (devices
        (poll_device (example_info 1 ''10.0.0.1'') 5 (example_replies ''sw-x'' '''') 100 True
           example_db)) = [None, None]"
    by code_simp
  with poll_device_keeps_lldp_hostname [of info interval replies now commit_ok database]
  show ?thesis by blast
qed

subsection \<open>The interface upsert\<close>

























section \<open>Properties of the scheduler cycle\<close>

lemma find_map_other:
  assumes "\<And>d. d_id (f d) = d_id d" and "k \<noteq> k'"
  shows "find (\<lambda>d. d_id d = k) (map (\<lambda>d. if d_id d = k' then f d else d) ds)
           = find (\<lambda>d. d_id d = k) ds"
  using assms by (induction ds) auto

lemma is_down_set_device_other:
  assumes "\<And>d. d_id (f d) = d_id d" and "k \<noteq> k'"
  shows "is_down (set_device k' f database) k = is_down database k"
  using find_map_other [of f k k' "devices database", OF assms]
  by (simp add: is_down_def get_device_def set_device_def)

lemma is_down_devices_cong: "devices a = devices b \<Longrightarrow> is_down a k = is_down b k"
  by (simp add: is_down_def)

lemma poll_device_other_status:
  assumes "k \<noteq> di_id info"
  shows "is_down (poll_device info interval replies now commit_ok database) k = is_down database k"
proof -
  let ?p = "poll_device info interval replies now commit_ok database"
  let ?dn = "set_device (di_id info) (\<lambda>d. d\<lparr>d_status := Some ''down'', d_last_seen := None\<rparr>) database"
  let ?up = "set_device (di_id info) (\<lambda>d. d\<lparr>d_status := Some ''up'', d_last_seen := Some now\<rparr>) database"
  have dn: "is_down ?dn k = is_down database k"
    by (rule is_down_set_device_other) (simp_all add: assms)
  have up: "is_down ?up k = is_down database k"
    by (rule is_down_set_device_other) (simp_all add: assms)
  from poll_device_devices [of info interval replies now commit_ok database]
  consider "devices ?p = devices database" | "devices ?p = devices ?dn" | "devices ?p = devices ?up"
    by blast
  then show ?thesis
  proof cases
    case 1
    then show ?thesis by (rule is_down_devices_cong)
  next
    case 2
    then have "is_down ?p k = is_down ?dn k" by (rule is_down_devices_cong)
    with dn show ?thesis by simp
  next
    case 3
    then have "is_down ?p k = is_down ?up k" by (rule is_down_devices_cong)
    with up show ?thesis by simp
  qed
qed

lemma distinct_ids_nth:
  assumes "distinct (map di_id infos)" and "i < length infos" and "j < length infos" and "i \<noteq> j"
  shows "di_id (infos ! i) \<noteq> di_id (infos ! j)"
proof -
  have "(map di_id infos ! i = map di_id infos ! j) = (i = j)"
    by (rule nth_eq_iff_index_eq) (simp_all add: assms)
  then show ?thesis using assms(2,3,4) by simp
qed

lemma sweep_start_inv: "sweep_inv infos database (sweep_start infos database)"
  by (simp add: sweep_inv_def sweep_start_def)

lemma sweep_step_inv:
  assumes d: "distinct (map di_id infos)"
    and inv: "sweep_inv infos database s"
    and step: "sweep_step infos interval s a = Some s'"
  shows "sweep_inv infos database s'"
proof (cases a)
  case (Acquire j)
  with step have s': "s' = s\<lparr>sw_free := sw_free s - 1, sw_pc := (sw_pc s)[j := Holding]\<rparr>"
    and j: "j < length (sw_pc s)" "sw_pc s ! j = Waiting"
    by (auto split: if_splits)
  show ?thesis
    using inv j unfolding sweep_inv_def s'
    by (auto simp: nth_list_update)
next
  case (Check j)
  with step have j: "j < length (sw_pc s)" "j < length infos" "sw_pc s ! j = Holding"
    by (auto split: if_splits)
  show ?thesis
  proof (cases "is_down (sw_db s) (di_id (infos ! j))")
    case True
    with step Check j have s': "s' = s\<lparr>sw_free := sw_free s + 1, sw_pc := (sw_pc s)[j := Finished]\<rparr>"
      by simp
    show ?thesis
      using inv j unfolding sweep_inv_def s'
      by (auto simp: nth_list_update)
  next
    case False
    with step Check j have s': "s' = s\<lparr>sw_pc := (sw_pc s)[j := Polling], sw_polled := sw_polled s @ [j]\<rparr>"
      by simp
    have nd: "\<not> is_down database (di_id (infos ! j))"
      using inv j False unfolding sweep_inv_def by auto
    show ?thesis
      using inv j nd unfolding sweep_inv_def s'
      by (auto simp: nth_list_update)
  qed
next
  case (Complete j replies now commit_ok)
  with step have j: "j < length (sw_pc s)" "j < length infos" "sw_pc s ! j = Polling"
    and s': "s' = s\<lparr>sw_db := poll_device (infos ! j) interval replies now commit_ok (sw_db s),
                    sw_free := sw_free s + 1, sw_pc := (sw_pc s)[j := Finished]\<rparr>"
    by (auto split: if_splits)
  have nd: "\<not> is_down database (di_id (infos ! j))"
    using inv j unfolding sweep_inv_def by auto
  have keep: "is_down (poll_device (infos ! j) interval replies now commit_ok (sw_db s)) (di_id (infos ! i))
      = is_down (sw_db s) (di_id (infos ! i))" if "i < length infos" "i \<noteq> j" for i
    by (rule poll_device_other_status) (rule distinct_ids_nth [OF d that(1) j(2) that(2)])
  have pc': "sw_pc s' = (sw_pc s)[j := Finished]"
    and db': "sw_db s' = poll_device (infos ! j) interval replies now commit_ok (sw_db s)"
    and polled': "sw_polled s' = sw_polled s"
    by (simp_all add: s')
  have len: "length (sw_pc s') = length infos"
    using inv unfolding sweep_inv_def by (simp add: pc')
  have each: "i \<notin> set (sw_polled s') \<and> sw_pc s' ! i \<noteq> Polling \<and>
           (sw_pc s' ! i \<noteq> Finished \<longrightarrow> is_down (sw_db s') (di_id (infos ! i)))"
    if i: "i < length infos" and dn: "is_down database (di_id (infos ! i))" for i
  proof -
    have ij: "i \<noteq> j" using dn nd by auto
    from inv i dn have old: "i \<notin> set (sw_polled s)" "sw_pc s ! i \<noteq> Polling"
      "sw_pc s ! i \<noteq> Finished \<longrightarrow> is_down (sw_db s) (di_id (infos ! i))"
      unfolding sweep_inv_def by auto
    show ?thesis
      using old ij keep [OF i ij] by (simp add: pc' db' polled' nth_list_update)
  qed
  show ?thesis
    unfolding sweep_inv_def using len each by blast
qed

lemma sweep_run_inv:
  assumes "distinct (map di_id infos)"
  shows "sweep_inv infos database s \<Longrightarrow> sweep_run infos interval s acts = Some s'
     \<Longrightarrow> sweep_inv infos database s'"
proof (induction acts arbitrary: s)
  case Nil
  then show ?case by simp
next
  case (Cons a acts)
  from Cons.prems(2) obtain s1 where 1: "sweep_step infos interval s a = Some s1"
    and 2: "sweep_run infos interval s1 acts = Some s'"
    by (auto split: option.splits)
  from sweep_step_inv [OF assms Cons.prems(1) 1] have "sweep_inv infos database s1" .
  from Cons.IH [OF this 2] show ?case .
qed

subsection \<open>Phase A marks an unreachable device down\<close>

lemma find_map_same:
  assumes "\<And>d. d_id (f d) = d_id d"
  shows "find (\<lambda>d. d_id d = k) (map (\<lambda>d. if d_id d = k then f d else d) ds)
           = map_option f (find (\<lambda>d. d_id d = k) ds)"
  using assms by (induction ds) auto

lemma is_down_ping_other:
  "k \<noteq> k' \<Longrightarrow> is_down (ping_update now (k', ip, ok) database) k = is_down database k"
  unfolding ping_update_def prod.case
  by (rule is_down_set_device_other) simp_all

lemma set_device_exists:
  assumes "\<And>d. d_id (f d) = d_id d"
  shows "(get_device (devices (set_device k' f database)) (Some k) = None)
     = (get_device (devices database) (Some k) = None)"
proof (cases "k = k'")
  case True
  show ?thesis
    using find_map_same [of f k "devices database", OF assms] True
    by (simp add: get_device_def set_device_def)
next
  case False
  show ?thesis
    using find_map_other [of f k k' "devices database", OF assms False]
    by (simp add: get_device_def set_device_def)
qed

lemma ping_update_exists:
  "(get_device (devices (ping_update now r database)) (Some k) = None)
     = (get_device (devices database) (Some k) = None)"
proof -
  obtain a b c where r: "r = (a, b, c)" by (cases r)
  show ?thesis
    unfolding r ping_update_def prod.case
    by (rule set_device_exists) simp
qed

lemma is_down_ping_failed:
  assumes "get_device (devices database) (Some k) \<noteq> None"
  shows "is_down (ping_update now (k, ip, False) database) k"
proof -
  let ?f = "\<lambda>d. d\<lparr>d_status := Some ''down'', d_last_seen := None\<rparr>"
  obtain d where d: "find (\<lambda>d. d_id d = k) (devices database) = Some d"
    using assms by (auto simp: get_device_def)
  have "find (\<lambda>d. d_id d = k) (map (\<lambda>d. if d_id d = k then ?f d else d) (devices database))
      = map_option ?f (find (\<lambda>d. d_id d = k) (devices database))"
    by (rule find_map_same) simp
  then show ?thesis
    by (simp add: is_down_def get_device_def ping_update_def set_device_def d cong: if_cong)
qed

lemma fold_ping_other:
  "k \<notin> di_id ` set infos \<Longrightarrow>
   is_down (fold (ping_update now) (map (\<lambda>info. (di_id info, di_ip_address info, p info)) infos) database) k
     = is_down database k"
  by (induction infos arbitrary: database) (simp_all add: is_down_ping_other)

lemma fold_ping_down:
  assumes "distinct (map di_id infos)" and "info \<in> set infos" and "\<not> p info"
    and "get_device (devices database) (Some (di_id info)) \<noteq> None"
  shows "is_down (fold (ping_update now) (map (\<lambda>info. (di_id info, di_ip_address info, p info)) infos)
           database) (di_id info)"
  using assms
proof (induction infos arbitrary: database)
  case Nil
  then show ?case by simp
next
  case (Cons x xs)
  show ?case
  proof (cases "info = x")
    case True
    have notin: "di_id info \<notin> di_id ` set xs" using Cons.prems(1) True by auto
    have "is_down (ping_update now (di_id x, di_ip_address x, p x) database) (di_id info)"
      using is_down_ping_failed [OF Cons.prems(4)] Cons.prems(3) True by simp
    then show ?thesis by (simp add: fold_ping_other [OF notin])
  next
    case False
    then have mem: "info \<in> set xs" using Cons.prems(2) by simp
    have dx: "distinct (map di_id xs)" using Cons.prems(1) by simp
    have ex: "get_device (devices (ping_update now (di_id x, di_ip_address x, p x) database))
               (Some (di_id info)) \<noteq> None"
      using Cons.prems(4) by (simp add: ping_update_exists)
    from Cons.IH [OF dx mem Cons.prems(3) ex] show ?thesis by simp
  qed
qed

subsection \<open>A device that is down is not polled\<close>

text \<open>
  C7, as the code has it: with distinct device identities, a device whose ping failed is
  down in the database once phase A has committed, and in every run of the sweep, under
  every interleaving of the tasks, a device that is down when the sweep starts is never
  polled.  Its status is read by its task while the task holds a slot of the semaphore
  (the check is possible in no other state), and on "down" the task releases the slot
  and ends without a poll.
\<close>

theorem sweep_skips_down_devices:
  assumes "distinct (map di_id infos)" and "i < length infos"
  shows "(\<not> async_ping reachable (di_ip_address (infos ! i))
            \<and> get_device (devices db0) (Some (di_id (infos ! i))) \<noteq> None
          \<longrightarrow> is_down (reachability_phase reachable now True infos db0) (di_id (infos ! i)))
    \<and> (is_down db1 (di_id (infos ! i))
          \<and> sweep_run infos interval (sweep_start infos db1) acts = Some s
        \<longrightarrow> i \<notin> set (sw_polled s) \<and> sw_pc s ! i \<noteq> Polling)
    \<and> (sweep_step infos interval s0 (Check i) \<noteq> None
        \<longrightarrow> sw_pc s0 ! i = Holding)
    \<and> (i < length (sw_pc s0) \<and> sw_pc s0 ! i = Holding \<and> is_down (sw_db s0) (di_id (infos ! i))
        \<longrightarrow> sweep_step infos interval s0 (Check i)
              = Some (s0\<lparr>sw_free := sw_free s0 + 1, sw_pc := (sw_pc s0)[i := Finished]\<rparr>))"
proof -
  have mem: "infos ! i \<in> set infos" using assms(2) by simp
  have phase_a: "\<not> async_ping reachable (di_ip_address (infos ! i))
            \<and> get_device (devices db0) (Some (di_id (infos ! i))) \<noteq> None
          \<longrightarrow> is_down (reachability_phase reachable now True infos db0) (di_id (infos ! i))"
    using fold_ping_down [OF assms(1) mem, of "\<lambda>info. async_ping reachable (di_ip_address info)" db0 now]
    by (simp add: reachability_phase_def)
  have phase_b: "is_down db1 (di_id (infos ! i))
          \<and> sweep_run infos interval (sweep_start infos db1) acts = Some s
        \<longrightarrow> i \<notin> set (sw_polled s) \<and> sw_pc s ! i \<noteq> Polling"
  proof
    assume h: "is_down db1 (di_id (infos ! i))
          \<and> sweep_run infos interval (sweep_start infos db1) acts = Some s"
    then have "sweep_inv infos db1 s"
      using sweep_run_inv [OF assms(1) sweep_start_inv] by blast
    then show "i \<notin> set (sw_polled s) \<and> sw_pc s ! i \<noteq> Polling"
      using h assms(2) unfolding sweep_inv_def by blast
  qed
  have holding: "sweep_step infos interval s0 (Check i) \<noteq> None \<longrightarrow> sw_pc s0 ! i = Holding"
    by (simp split: if_splits)
  have release: "i < length (sw_pc s0) \<and> sw_pc s0 ! i = Holding \<and> is_down (sw_db s0) (di_id (infos ! i))
        \<longrightarrow> sweep_step infos interval s0 (Check i)
              = Some (s0\<lparr>sw_free := sw_free s0 + 1, sw_pc := (sw_pc s0)[i := Finished]\<rparr>)"
    using assms(2) by simp
  from phase_a phase_b holding release show ?thesis by blast
qed

theorem sweep_skips_down_devices_witness:
  "is_down (reachability_phase (\<lambda>host. host = ''10.0.0.2'') 100 True
              [example_info 1 ''10.0.0.1'', example_info 2 ''10.0.0.2''] example_db) 1
   \<and> map_option sw_polled
        (sweep_run [example_info 1 ''10.0.0.1'', example_info 2 ''10.0.0.2''] 5
          (sweep_start [example_info 1 ''10.0.0.1'', example_info 2 ''10.0.0.2'']
             (reachability_phase (\<lambda>host. host = ''10.0.0.2'') 100 True
                [example_info 1 ''10.0.0.1'', example_info 2 ''10.0.0.2''] example_db))
          [Acquire 0, Acquire 1, Check 1, Check 0,
           Complete 1 (example_replies ''core-sw1'' ''10.0.0.1'') 101 True]) = Some [1]
   \<and> 0 \<notin> set [1::nat]
   \<and> map_option (\<lambda>s. (sw_free s, sw_pc s, sw_polled s))
        (sweep_step [example_info 1 ''10.0.0.1'', example_info 2 ''10.0.0.2''] 5
          \<lparr>sw_db = reachability_phase (\<lambda>host. host = ''10.0.0.2'') 100 True
                     [example_info 1 ''10.0.0.1'', example_info 2 ''10.0.0.2''] example_db,
            sw_free = 18, sw_pc = [Holding, Polling], sw_polled = [1]\<rparr> (Check 0))
       = Some (19, [Finished, Polling], [1])"
proof -
  let ?infos = "[example_info 1 ''10.0.0.1'', example_info 2 ''10.0.0.2'']"
  let ?reach = "\<lambda>host. host = ''10.0.0.2''"
  let ?db1 = "reachability_phase ?reach 100 True ?infos example_db"
  let ?acts = "[Acquire 0, Acquire 1, Check 1, Check 0,
           Complete 1 (example_replies ''core-sw1'' ''10.0.0.1'') 101 True]"
  let ?s0 = "\<lparr>sw_db = ?db1, sw_free = 18, sw_pc = [Holding, Polling], sw_polled = [1]\<rparr>"
  have d: "distinct (map di_id ?infos)" by (simp add: example_info_def)
  have l: "0 < length ?infos" by simp
  have p: "\<not> async_ping ?reach (di_ip_address (?infos ! 0))
            \<and> get_device (devices example_db) (Some (di_id (?infos ! 0))) \<noteq> None"
    by code_simp
  have r: "map_option sw_polled (sweep_run ?infos 5 (sweep_start ?infos ?db1) ?acts) = Some [1]"
    by code_simp
  then obtain s where s: "sweep_run ?infos 5 (sweep_start ?infos ?db1) ?acts = Some s"
    by blast
  note t = sweep_skips_down_devices [OF d l, of ?reach example_db 100 ?db1 5 ?acts s ?s0]
  have dn: "is_down ?db1 (di_id (?infos ! 0))" using t p by blast
  then have np: "0 \<notin> set (sw_polled s)" using t s by blast
  have h: "0 < length (sw_pc ?s0) \<and> sw_pc ?s0 ! 0 = Holding \<and> is_down (sw_db ?s0) (di_id (?infos ! 0))"
    using dn by simp
  with t have c: "sweep_step ?infos 5 ?s0 (Check 0)
              = Some (?s0\<lparr>sw_free := sw_free ?s0 + 1, sw_pc := (sw_pc ?s0)[0 := Finished]\<rparr>)"
    by blast
  have i: "di_id (?infos ! 0) = 1" by (simp add: example_info_def)
  show ?thesis using dn r c unfolding i by simp
qed

theorem sweep_slot_before_check_counterexample:
  "is_down (reachability_phase (\<lambda>host. False) 100 True [example_info 1 ''10.0.0.1''] example_db) 1
   \<and> map_option (\<lambda>s. (sw_free s, sw_pc s, sw_polled s))
        (sweep_run [example_info 1 ''10.0.0.1''] 5
          (sweep_start [example_info 1 ''10.0.0.1'']
             (reachability_phase (\<lambda>host. False) 100 True [example_info 1 ''10.0.0.1''] example_db))
          [Acquire 0])
       = Some (19, [Holding], [])"
  by code_simp

end
